theory Spec2Isabelle
  imports Complex_Main
begin

section \<open>JSON values and the zod schemas\<close>

text \<open>
  The value that \<^verbatim>\<open>await request.json()\<close> yields. An object is the list of its own
  properties; \<open>map_of\<close> reads a property and gives \<open>None\<close> where JavaScript gives
  \<^verbatim>\<open>undefined\<close>. A string is a list of code units and \<open>length\<close> is JavaScript's
  \<^verbatim>\<open>.length\<close>.
\<close>

datatype json =
    JNull
  | JBool bool
  | JNum rat
  | JStr string
  | JArr "json list"
  | JObj "(string \<times> json) list"

text \<open>
  \<^verbatim>\<open>z.string().min(mn).max(mx)\<close>, \<^verbatim>\<open>z.enum([...])\<close> and \<^verbatim>\<open>.optional()\<close>. The argument
  is the property read from the object (\<open>None\<close> for \<^verbatim>\<open>undefined\<close>); the result is \<open>None\<close>
  when zod reports an issue.
\<close>

fun z_string :: "nat \<Rightarrow> nat option \<Rightarrow> json option \<Rightarrow> string option" where
  "z_string mn mx (Some (JStr s)) =
     (if mn \<le> length s \<and> (case mx of None \<Rightarrow> True | Some m \<Rightarrow> length s \<le> m)
      then Some s else None)"
| "z_string mn mx _ = None"

fun z_enum :: "string list \<Rightarrow> json option \<Rightarrow> string option" where
  "z_enum vs (Some (JStr s)) = (if s \<in> set vs then Some s else None)"
| "z_enum vs _ = None"

definition optional :: "(json option \<Rightarrow> 'a option) \<Rightarrow> json option \<Rightarrow> 'a option option" where
  "optional p v = (case v of None \<Rightarrow> Some None | Some j \<Rightarrow> map_option Some (p v))"

definition Status :: "string list" where
  "Status = [''TODO'', ''IN_PROGRESS'', ''DONE'']"

definition Priority :: "string list" where
  "Priority = [''LOW'', ''MEDIUM'', ''HIGH'', ''URGENT'']"

record create_data =
  c_title :: string
  c_content :: string
  c_status :: "string option"
  c_priority :: "string option"

record update_data =
  p_title :: "string option"
  p_content :: "string option"
  p_status :: "string option"
  p_priority :: "string option"

text \<open>
  \<^verbatim>\<open>createDocumentSchema.safeParse(body)\<close>: \<open>Some data\<close> for \<^verbatim>\<open>{success: true, data}\<close>,
  \<open>None\<close> for \<^verbatim>\<open>{success: false}\<close>. \<^verbatim>\<open>z.object\<close> wants an object and drops the keys
  the schema does not name.
\<close>

definition createDocumentSchema :: "json \<Rightarrow> create_data option" where
  "createDocumentSchema body =
     (case body of
        JObj kv \<Rightarrow>
          Option.bind (z_string 1 (Some 200) (map_of kv ''title'')) (\<lambda>t.
          Option.bind (z_string 1 None (map_of kv ''content'')) (\<lambda>c.
          Option.bind (optional (z_enum Status) (map_of kv ''status'')) (\<lambda>st.
          Option.bind (optional (z_enum Priority) (map_of kv ''priority'')) (\<lambda>pr.
            Some \<lparr>c_title = t, c_content = c, c_status = st, c_priority = pr\<rparr>))))
      | _ \<Rightarrow> None)"

definition updateDocumentSchema :: "json \<Rightarrow> update_data option" where
  "updateDocumentSchema body =
     (case body of
        JObj kv \<Rightarrow>
          Option.bind (optional (z_string 1 (Some 200)) (map_of kv ''title'')) (\<lambda>t.
          Option.bind (optional (z_string 1 None) (map_of kv ''content'')) (\<lambda>c.
          Option.bind (optional (z_enum Status) (map_of kv ''status'')) (\<lambda>st.
          Option.bind (optional (z_enum Priority) (map_of kv ''priority'')) (\<lambda>pr.
            Some \<lparr>p_title = t, p_content = c, p_status = st, p_priority = pr\<rparr>))))
      | _ \<Rightarrow> None)"

section \<open>The data model\<close>

text \<open>The rows of the two tables of the migration; timestamps are clock readings.\<close>

record user_row =
  u_id :: int
  u_name :: string
  u_email :: string
  u_password :: string
  u_role :: string
  u_createdAt :: nat
  u_updatedAt :: nat

record Document =
  doc_id :: string
  title :: string
  content :: string
  status :: string
  priority :: string
  createdAt :: nat
  updatedAt :: nat
  authorId :: int

text \<open>The user as the handlers see it: \<^verbatim>\<open>select: {id, name, email, role}\<close>.\<close>

record User =
  user_id :: int
  name :: string
  email :: string
  role :: string

record store =
  users :: "user_row list"
  documents :: "Document list"

record JWTPayload =
  userId :: int
  payload_email :: string
  payload_role :: string

text \<open>
  What a handler reads from outside the repository: the process environment, the
  \<^verbatim>\<open>jsonwebtoken\<close> and \<^verbatim>\<open>bcryptjs\<close> libraries (\<open>jwt_verify\<close> gives \<open>None\<close> where
  \<^verbatim>\<open>jwt.verify\<close> throws), the clock and the identifier the store draws for a new row,
  and the value the store leaves in \<open>updatedAt\<close> when it updates a row with a given data
  object. The handlers never write \<open>updatedAt\<close> and the sources do not hold the store, so
  that value is taken as it comes.
\<close>

record environment =
  process_env_JWT_SECRET :: "string option"
  jwt_sign :: "JWTPayload \<Rightarrow> string \<Rightarrow> string \<Rightarrow> string"
  jwt_verify :: "string \<Rightarrow> string \<Rightarrow> JWTPayload option"
  bcrypt_hash :: "string \<Rightarrow> nat \<Rightarrow> string"
  bcrypt_compare :: "string \<Rightarrow> string \<Rightarrow> bool"
  now :: nat
  uuid :: string
  store_updatedAt :: "update_data \<Rightarrow> Document \<Rightarrow> nat"

text \<open>
  The request: the value of the \<^verbatim>\<open>auth-token\<close> cookie, the parsed body (\<open>None\<close> when
  \<^verbatim>\<open>request.json()\<close> throws) and the query parameters of the URL.
\<close>

record request =
  cookies_auth_token :: "string option"
  json_body :: "json option"
  searchParams :: "(string \<times> string) list"

datatype payload =
    Error string
  | InvalidInput
  | Message string
  | DocumentJson Document "User option"
  | DocumentsJson "(Document \<times> User option) list"

text \<open>\<^verbatim>\<open>NextResponse.json(payload, {status})\<close>.\<close>

datatype response = Response (payload: payload) (status_code: nat)

section \<open>The persistence collaborator\<close>

text \<open>
  Modelled from the spec: the failures of the store that the handlers catch (section 7:
  storage-layer failures are caught and answered with an internal error).
\<close>

datatype store_error = RecordNotFound | UniqueConstraint | ForeignKeyConstraint

text \<open>
  Modelled from the spec: the non-secret fields of a user row (section 4.3: id, name,
  email, role).
\<close>

definition select_user :: "user_row \<Rightarrow> User" where
  "select_user r = \<lparr>user_id = u_id r, name = u_name r, email = u_email r, role = u_role r\<rparr>"

text \<open>
  Modelled from the spec: the Prisma client over the repository's \<^verbatim>\<open>schema.prisma\<close>, which
  is not among the sources (section 1 of the spec: typed CRUD operations over User and
  Document). \<^verbatim>\<open>prisma.user.findUnique({where: {id}, select: ...})\<close>.
\<close>

definition user_findUnique :: "store \<Rightarrow> int \<Rightarrow> User option" where
  "user_findUnique db i = map_option select_user (find (\<lambda>r. u_id r = i) (users db))"

text \<open>Modelled from the spec: \<^verbatim>\<open>prisma.document.findUnique({where: {id}})\<close>.\<close>

definition document_findUnique :: "store \<Rightarrow> string \<Rightarrow> Document option" where
  "document_findUnique db i = find (\<lambda>d. doc_id d = i) (documents db)"

text \<open>Modelled from the spec: \<^verbatim>\<open>include: {author: {select: ...}}\<close>.\<close>

definition include_author :: "store \<Rightarrow> Document \<Rightarrow> Document \<times> User option" where
  "include_author db d = (d, user_findUnique db (authorId d))"

text \<open>
  Modelled from the spec: the \<^verbatim>\<open>where\<close> argument of \<^verbatim>\<open>findMany\<close>, with the two keys the
  list handler sets, and the rows it selects.
\<close>

record where_input =
  where_status :: "string option"
  where_priority :: "string option"

definition matches :: "where_input \<Rightarrow> Document \<Rightarrow> bool" where
  "matches w d =
     ((case where_status w of None \<Rightarrow> True | Some s \<Rightarrow> status d = s) \<and>
      (case where_priority w of None \<Rightarrow> True | Some p \<Rightarrow> priority d = p))"

text \<open>
  Modelled from the spec: \<^verbatim>\<open>prisma.document.findMany({where, include, orderBy: {createdAt:
  'desc'}})\<close>; the filters are equalities joined by AND (section 4.5 of the spec).
\<close>

definition document_findMany :: "store \<Rightarrow> where_input \<Rightarrow> (Document \<times> User option) list" where
  "document_findMany db w =
     map (include_author db) (rev (sort_key createdAt (filter (matches w) (documents db))))"

text \<open>
  Modelled from the spec: \<^verbatim>\<open>prisma.document.create({data})\<close>. The store assigns the
  identifier and both timestamps (section 4.5) and enforces the primary key and the
  foreign key to the author (section 3).
\<close>

definition document_create ::
  "string \<Rightarrow> nat \<Rightarrow> string \<Rightarrow> string \<Rightarrow> string \<Rightarrow> string \<Rightarrow> int \<Rightarrow> store
     \<Rightarrow> store_error + (Document \<times> store)" where
  "document_create new_id t ti co st pr au db =
     (if document_findUnique db new_id \<noteq> None then Inl UniqueConstraint
      else if user_findUnique db au = None then Inl ForeignKeyConstraint
      else
        let d = \<lparr>doc_id = new_id, title = ti, content = co, status = st, priority = pr,
                 createdAt = t, updatedAt = t, authorId = au\<rparr>
        in Inr (d, db\<lparr>documents := documents db @ [d]\<rparr>))"

text \<open>
  Modelled from the spec: what an update writes into a row. A field of \<open>data\<close> that is
  \<^verbatim>\<open>undefined\<close> leaves the column as it is (section 4.5: leaves unspecified fields
  unchanged). No caller supplies \<open>updatedAt\<close>: the row gets the value \<open>t data d\<close> that the
  store chooses, and nothing is assumed about \<open>t\<close>.
\<close>

definition apply_data ::
  "(update_data \<Rightarrow> Document \<Rightarrow> nat) \<Rightarrow> update_data \<Rightarrow> Document \<Rightarrow> Document" where
  "apply_data t data d =
     d\<lparr>title := (case p_title data of None \<Rightarrow> title d | Some v \<Rightarrow> v),
       content := (case p_content data of None \<Rightarrow> content d | Some v \<Rightarrow> v),
       status := (case p_status data of None \<Rightarrow> status d | Some v \<Rightarrow> v),
       priority := (case p_priority data of None \<Rightarrow> priority d | Some v \<Rightarrow> v),
       updatedAt := t data d\<rparr>"

text \<open>
  Modelled from the spec: \<^verbatim>\<open>prisma.document.update({where: {id}, data})\<close>. Unspecified
  fields stay (section 4.5); \<open>t\<close> is the store's own treatment of \<open>updatedAt\<close>.
\<close>

definition document_update ::
  "(update_data \<Rightarrow> Document \<Rightarrow> nat) \<Rightarrow> string \<Rightarrow> update_data \<Rightarrow> store \<Rightarrow> store_error + (Document \<times> store)" where
  "document_update t i data db =
     (case document_findUnique db i of
        None \<Rightarrow> Inl RecordNotFound
      | Some d \<Rightarrow>
          Inr (apply_data t data d,
               db\<lparr>documents :=
                    map (\<lambda>x. if doc_id x = i then apply_data t data x else x) (documents db)\<rparr>))"

text \<open>Modelled from the spec: \<^verbatim>\<open>prisma.document.delete({where: {id}})\<close> removes the row.\<close>

definition document_delete :: "string \<Rightarrow> store \<Rightarrow> store_error + store" where
  "document_delete i db =
     (case document_findUnique db i of
        None \<Rightarrow> Inl RecordNotFound
      | Some d \<Rightarrow> Inr (db\<lparr>documents := filter (\<lambda>x. doc_id x \<noteq> i) (documents db)\<rparr>))"

section \<open>lib/auth\<close>

text \<open>\<^verbatim>\<open>process.env.JWT_SECRET || 'fallback-secret-key'\<close>: unset and empty are both falsy.\<close>

definition JWT_SECRET :: "environment \<Rightarrow> string" where
  "JWT_SECRET e =
     (case process_env_JWT_SECRET e of
        None \<Rightarrow> ''fallback-secret-key''
      | Some s \<Rightarrow> if s = [] then ''fallback-secret-key'' else s)"

definition hashPassword :: "environment \<Rightarrow> string \<Rightarrow> string" where
  "hashPassword e password = bcrypt_hash e password 12"

definition verifyPassword :: "environment \<Rightarrow> string \<Rightarrow> string \<Rightarrow> bool" where
  "verifyPassword e password hashedPassword = bcrypt_compare e password hashedPassword"

definition signToken :: "environment \<Rightarrow> JWTPayload \<Rightarrow> string" where
  "signToken e p = jwt_sign e p (JWT_SECRET e) ''7d''"

text \<open>The \<^verbatim>\<open>try\<close>/\<^verbatim>\<open>catch\<close> turns a throw of the library into \<^verbatim>\<open>null\<close>.\<close>

definition verifyToken :: "environment \<Rightarrow> string \<Rightarrow> JWTPayload option" where
  "verifyToken e token = jwt_verify e token (JWT_SECRET e)"

definition getAuthUser :: "environment \<Rightarrow> request \<Rightarrow> store \<Rightarrow> User option" where
  "getAuthUser e request db =
     (case cookies_auth_token request of
        None \<Rightarrow> None
      | Some token \<Rightarrow>
          if token = [] then None
          else (case verifyToken e token of
                  None \<Rightarrow> None
                | Some p \<Rightarrow> user_findUnique db (userId p)))"

datatype auth_result = AuthError string nat | AuthUser User

text \<open>
  \<^verbatim>\<open>requireAuth(roles?)\<close>: \<open>None\<close> is the omitted argument. An array is truthy in
  JavaScript whatever its length, so \<^verbatim>\<open>roles && !roles.includes(user.role)\<close> is the
  membership test for every array that is given.
\<close>

definition requireAuth :: "string list option \<Rightarrow> environment \<Rightarrow> request \<Rightarrow> store \<Rightarrow> auth_result" where
  "requireAuth roles e request db =
     (case getAuthUser e request db of
        None \<Rightarrow> AuthError ''Unauthorized'' 401
      | Some user \<Rightarrow>
          if (case roles of None \<Rightarrow> False | Some rs \<Rightarrow> role user \<notin> set rs)
          then AuthError ''Forbidden'' 403
          else AuthUser user)"

section \<open>api/documents\<close>

text \<open>\<^verbatim>\<open>if (status) where.status = status\<close>: a missing and an empty parameter set no filter.\<close>

definition truthy :: "string option \<Rightarrow> string option" where
  "truthy v = (case v of None \<Rightarrow> None | Some s \<Rightarrow> if s = [] then None else Some s)"

definition GET_documents :: "environment \<Rightarrow> request \<Rightarrow> store \<Rightarrow> response" where
  "GET_documents e request db =
     (case getAuthUser e request db of
        None \<Rightarrow> Response (Error ''Unauthorized'') 401
      | Some user \<Rightarrow>
          let w = \<lparr>where_status = truthy (map_of (searchParams request) ''status''),
                   where_priority = truthy (map_of (searchParams request) ''priority'')\<rparr>
          in Response (DocumentsJson (document_findMany db w)) 200)"

definition POST :: "environment \<Rightarrow> request \<Rightarrow> store \<Rightarrow> response \<times> store" where
  "POST e request db =
     (case getAuthUser e request db of
        None \<Rightarrow> (Response (Error ''Unauthorized'') 401, db)
      | Some user \<Rightarrow>
          (case json_body request of
             None \<Rightarrow> (Response (Error ''Failed to create document'') 500, db)
           | Some body \<Rightarrow>
               (case createDocumentSchema body of
                  None \<Rightarrow> (Response InvalidInput 400, db)
                | Some data \<Rightarrow>
                    (case document_create (uuid e) (now e) (c_title data) (c_content data)
                            (case c_status data of None \<Rightarrow> ''TODO'' | Some s \<Rightarrow> s)
                            (case c_priority data of None \<Rightarrow> ''MEDIUM'' | Some p \<Rightarrow> p)
                            (user_id user) db of
                       Inl err \<Rightarrow> (Response (Error ''Failed to create document'') 500, db)
                     | Inr (document, db') \<Rightarrow>
                         (Response (DocumentJson document (user_findUnique db' (authorId document))) 201,
                          db')))))"

section \<open>api/documents/[id]\<close>

definition GET_document :: "environment \<Rightarrow> request \<Rightarrow> string \<Rightarrow> store \<Rightarrow> response" where
  "GET_document e request params_id db =
     (case getAuthUser e request db of
        None \<Rightarrow> Response (Error ''Unauthorized'') 401
      | Some user \<Rightarrow>
          (case document_findUnique db params_id of
             None \<Rightarrow> Response (Error ''Document not found'') 404
           | Some document \<Rightarrow>
               Response (DocumentJson document (user_findUnique db (authorId document))) 200))"

definition PUT :: "environment \<Rightarrow> request \<Rightarrow> string \<Rightarrow> store \<Rightarrow> response \<times> store" where
  "PUT e request params_id db =
     (case getAuthUser e request db of
        None \<Rightarrow> (Response (Error ''Unauthorized'') 401, db)
      | Some user \<Rightarrow>
          (case json_body request of
             None \<Rightarrow> (Response (Error ''Failed to update document'') 500, db)
           | Some body \<Rightarrow>
               (case updateDocumentSchema body of
                  None \<Rightarrow> (Response InvalidInput 400, db)
                | Some data \<Rightarrow>
                    (case document_findUnique db params_id of
                       None \<Rightarrow> (Response (Error ''Document not found'') 404, db)
                     | Some existingDocument \<Rightarrow>
                         if authorId existingDocument \<noteq> user_id user \<and> role user \<noteq> ''ADMIN''
                         then (Response (Error ''Forbidden: You can only edit your own documents'') 403, db)
                         else
                           (case document_update (store_updatedAt e) params_id data db of
                              Inl err \<Rightarrow> (Response (Error ''Failed to update document'') 500, db)
                            | Inr (updatedDocument, db') \<Rightarrow>
                                (Response (DocumentJson updatedDocument
                                    (user_findUnique db' (authorId updatedDocument))) 200,
                                 db'))))))"

definition DELETE :: "environment \<Rightarrow> request \<Rightarrow> string \<Rightarrow> store \<Rightarrow> response \<times> store" where
  "DELETE e request params_id db =
     (case getAuthUser e request db of
        None \<Rightarrow> (Response (Error ''Unauthorized'') 401, db)
      | Some user \<Rightarrow>
          (case document_findUnique db params_id of
             None \<Rightarrow> (Response (Error ''Document not found'') 404, db)
           | Some existingDocument \<Rightarrow>
               if authorId existingDocument \<noteq> user_id user \<and> role user \<noteq> ''ADMIN''
               then (Response (Error ''Forbidden: You can only delete your own documents'') 403, db)
               else
                 (case document_delete params_id db of
                    Inl err \<Rightarrow> (Response (Error ''Failed to delete document'') 500, db)
                  | Inr db' \<Rightarrow> (Response (Message ''Document deleted successfully'') 200, db'))))"

text \<open>The document a response carries, if it carries one.\<close>

fun response_document :: "response \<Rightarrow> Document option" where
  "response_document (Response (DocumentJson d a) c) = Some d"
| "response_document _ = None"

section \<open>A deployment to evaluate on\<close>

text \<open>
  Two users and an administrator, one document of the first user, and a library stand-in
  that accepts three fixed tokens under whatever secret it is given. The store writes the
  clock reading into \<open>updatedAt\<close> when the data object of an update carries a field, and
  writes nothing when it carries none.
\<close>

definition demo_users :: "user_row list" where
  "demo_users =
     [\<lparr>u_id = 1, u_name = ''A'', u_email = ''a@localhost'', u_password = ''hashA'',
       u_role = ''USER'', u_createdAt = 100, u_updatedAt = 100\<rparr>,
      \<lparr>u_id = 2, u_name = ''B'', u_email = ''b@localhost'', u_password = ''hashB'',
       u_role = ''USER'', u_createdAt = 200, u_updatedAt = 200\<rparr>,
      \<lparr>u_id = 3, u_name = ''System Administrator'', u_email = ''admin@localhost'',
       u_password = ''hashC'', u_role = ''ADMIN'', u_createdAt = 300, u_updatedAt = 300\<rparr>]"

definition demo_doc :: Document where
  "demo_doc =
     \<lparr>doc_id = ''d1'', title = ''Server Maintenance Checklist'', content = ''Check disk space'',
      status = ''TODO'', priority = ''HIGH'', createdAt = 1000, updatedAt = 1000, authorId = 1\<rparr>"

definition demo_store :: store where
  "demo_store = \<lparr>users = demo_users, documents = [demo_doc]\<rparr>"

definition demo_verify :: "string \<Rightarrow> string \<Rightarrow> JWTPayload option" where
  "demo_verify token secret =
     (if token = ''tokenA'' then Some \<lparr>userId = 1, payload_email = ''a@localhost'', payload_role = ''USER''\<rparr>
      else if token = ''tokenB'' then Some \<lparr>userId = 2, payload_email = ''b@localhost'', payload_role = ''USER''\<rparr>
      else if token = ''tokenC'' then Some \<lparr>userId = 3, payload_email = ''admin@localhost'', payload_role = ''ADMIN''\<rparr>
      else None)"

definition demo_env :: environment where
  "demo_env =
     \<lparr>process_env_JWT_SECRET = Some ''s3cret'',
      jwt_sign = (\<lambda>p secret expiresIn. ''tokenA''),
      jwt_verify = demo_verify,
      bcrypt_hash = (\<lambda>password rounds. password),
      bcrypt_compare = (\<lambda>password hashed. password = hashed),
      now = 2000,
      uuid = ''d2'',
      store_updatedAt = (\<lambda>data d.
        if p_title data = None \<and> p_content data = None \<and> p_status data = None \<and>
           p_priority data = None
        then updatedAt d else 2000)\<rparr>"

definition demo_request :: "string \<Rightarrow> json option \<Rightarrow> (string \<times> string) list \<Rightarrow> request" where
  "demo_request token body query =
     \<lparr>cookies_auth_token = Some token, json_body = body, searchParams = query\<rparr>"

definition demo_userA :: User where
  "demo_userA = \<lparr>user_id = 1, name = ''A'', email = ''a@localhost'', role = ''USER''\<rparr>"

definition demo_userB :: User where
  "demo_userB = \<lparr>user_id = 2, name = ''B'', email = ''b@localhost'', role = ''USER''\<rparr>"

definition demo_admin :: User where
  "demo_admin =
     \<lparr>user_id = 3, name = ''System Administrator'', email = ''admin@localhost'', role = ''ADMIN''\<rparr>"

section \<open>Facts about the store and the resolver\<close>

lemma demo_auth_A:
  "getAuthUser demo_env (demo_request ''tokenA'' b q) demo_store = Some demo_userA"
  by (simp add: getAuthUser_def demo_request_def verifyToken_def demo_env_def demo_verify_def
      user_findUnique_def demo_store_def demo_users_def select_user_def demo_userA_def)

lemma demo_auth_B:
  "getAuthUser demo_env (demo_request ''tokenB'' b q) demo_store = Some demo_userB"
  by (simp add: getAuthUser_def demo_request_def verifyToken_def demo_env_def demo_verify_def
      user_findUnique_def demo_store_def demo_users_def select_user_def demo_userB_def)

lemma demo_auth_C:
  "getAuthUser demo_env (demo_request ''tokenC'' b q) demo_store = Some demo_admin"
  by (simp add: getAuthUser_def demo_request_def verifyToken_def demo_env_def demo_verify_def
      user_findUnique_def demo_store_def demo_users_def select_user_def demo_admin_def)

lemma demo_find_d1: "document_findUnique demo_store ''d1'' = Some demo_doc"
  by (simp add: document_findUnique_def demo_store_def demo_doc_def)

lemma demo_find_other: "document_findUnique demo_store ''d2'' = None"
  by (simp add: document_findUnique_def demo_store_def demo_doc_def)

text \<open>The resolver reads the user table only.\<close>

lemma getAuthUser_users:
  "users db' = users db \<Longrightarrow> getAuthUser e request db' = getAuthUser e request db"
  by (simp add: getAuthUser_def user_findUnique_def split: option.splits)

lemma user_findUnique_documents [simp]:
  "user_findUnique (db\<lparr>documents := ds\<rparr>) i = user_findUnique db i"
  by (simp add: user_findUnique_def)

lemma findUnique_after_filter:
  "document_findUnique (db\<lparr>documents := filter (\<lambda>x. doc_id x \<noteq> i) (documents db)\<rparr>) i = None"
  by (simp add: document_findUnique_def find_None_iff)

lemma doc_id_apply_data [simp]: "doc_id (apply_data t data d) = doc_id d"
  by (simp add: apply_data_def)


lemma DELETE_allowed:
  "getAuthUser e request db = Some u \<Longrightarrow> document_findUnique db i = Some d \<Longrightarrow>
   authorId d = user_id u \<or> role u = ''ADMIN'' \<Longrightarrow>
   DELETE e request i db =
     (Response (Message ''Document deleted successfully'') 200,
      db\<lparr>documents := filter (\<lambda>x. doc_id x \<noteq> i) (documents db)\<rparr>)"
  by (simp add: DELETE_def document_delete_def)

lemma DELETE_missing:
  "getAuthUser e request db = Some u \<Longrightarrow> document_findUnique db i = None \<Longrightarrow>
   DELETE e request i db = (Response (Error ''Document not found'') 404, db)"
  by (simp add: DELETE_def)

section \<open>Deleting a document\<close>

text \<open>
  Claim C9. Let the first requester be authenticated and be the author of the stored
  document \<open>i\<close> or an administrator. The first DELETE answers 200 and removes the row; a
  second DELETE of the same id, by any requester who is authenticated, answers 404 and
  leaves the store as the first call left it. For an id with no stored document DELETE
  answers 404 and returns the store unchanged.
\<close>

theorem delete_twice:
  assumes "getAuthUser e request db = Some u"
    and "getAuthUser e' request' db = Some u'"
  shows "(\<forall>d. document_findUnique db i = Some d \<and> (authorId d = user_id u \<or> role u = ''ADMIN'') \<longrightarrow>
           fst (DELETE e request i db) = Response (Message ''Document deleted successfully'') 200 \<and>
           document_findUnique (snd (DELETE e request i db)) i = None \<and>
           DELETE e' request' i (snd (DELETE e request i db)) =
             (Response (Error ''Document not found'') 404, snd (DELETE e request i db))) \<and>
         (document_findUnique db i = None \<longrightarrow>
           DELETE e request i db = (Response (Error ''Document not found'') 404, db))"
proof (intro conjI allI impI)
  fix d
  assume h: "document_findUnique db i = Some d \<and> (authorId d = user_id u \<or> role u = ''ADMIN'')"
  define db' where "db' = db\<lparr>documents := filter (\<lambda>x. doc_id x \<noteq> i) (documents db)\<rparr>"
  have del: "DELETE e request i db = (Response (Message ''Document deleted successfully'') 200, db')"
    unfolding db'_def using assms(1) h by (intro DELETE_allowed) blast+
  have "users db' = users db"
    by (simp add: db'_def)
  then have "getAuthUser e' request' db' = getAuthUser e' request' db"
    by (rule getAuthUser_users)
  with assms(2) have auth': "getAuthUser e' request' db' = Some u'"
    by simp
  have gone: "document_findUnique db' i = None"
    unfolding db'_def by (rule findUnique_after_filter)
  show "fst (DELETE e request i db) = Response (Message ''Document deleted successfully'') 200"
    by (simp add: del)
  show "document_findUnique (snd (DELETE e request i db)) i = None"
    by (simp add: del gone)
  show "DELETE e' request' i (snd (DELETE e request i db)) =
             (Response (Error ''Document not found'') 404, snd (DELETE e request i db))"
    using DELETE_missing [OF auth' gone] by (simp add: del)
next
  assume "document_findUnique db i = None"
  then show "DELETE e request i db = (Response (Error ''Document not found'') 404, db)"
    using assms(1) by (rule DELETE_missing [rotated])
qed

text \<open>
  User A deletes the own document \<open>d1\<close>: 200. The administrator repeats the call: 404,
  store untouched. User A deletes \<open>d2\<close>, which was never stored: 404, store untouched.
\<close>

theorem delete_twice_witness:
  "fst (DELETE demo_env (demo_request ''tokenA'' None []) ''d1'' demo_store)
     = Response (Message ''Document deleted successfully'') 200 \<and>
   DELETE demo_env (demo_request ''tokenC'' None []) ''d1''
       (snd (DELETE demo_env (demo_request ''tokenA'' None []) ''d1'' demo_store))
     = (Response (Error ''Document not found'') 404,
        snd (DELETE demo_env (demo_request ''tokenA'' None []) ''d1'' demo_store)) \<and>
   DELETE demo_env (demo_request ''tokenA'' None []) ''d2'' demo_store
     = (Response (Error ''Document not found'') 404, demo_store)"
proof -
  have own: "authorId demo_doc = user_id demo_userA"
    by (simp add: demo_doc_def demo_userA_def)
  note t1 = delete_twice [OF demo_auth_A [of None "[]"] demo_auth_C [of None "[]"], where i = "''d1''"]
  note t2 = delete_twice [OF demo_auth_A [of None "[]"] demo_auth_C [of None "[]"], where i = "''d2''"]
  from t1 demo_find_d1 own t2 demo_find_other show ?thesis
    by blast
qed

section \<open>Order of the checks in an update\<close>

text \<open>
  Claim C10. In PUT the body is validated before the document is looked up and before the
  ownership test: for an authenticated request whose JSON body fails
  \<open>updateDocumentSchema\<close> the answer is 400 and the store is returned unchanged, whatever
  the id and whoever the requester. Nothing is assumed about the document or its author.
\<close>

theorem update_validates_first:
  assumes "getAuthUser e request db = Some u"
    and "json_body request = Some body"
    and "updateDocumentSchema body = None"
  shows "PUT e request i db = (Response InvalidInput 400, db)"
  using assms by (simp add: PUT_def)

text \<open>
  User B sends an empty title. For the missing id \<open>d2\<close> the answer is 400, not 404; for
  \<open>d1\<close>, which belongs to user A, it is 400, not 403.
\<close>

theorem update_validates_first_witness:
  "getAuthUser demo_env (demo_request ''tokenB'' (Some (JObj [(''title'', JStr [])])) []) demo_store
     = Some demo_userB \<and>
   updateDocumentSchema (JObj [(''title'', JStr [])]) = None \<and>
   document_findUnique demo_store ''d2'' = None \<and>
   PUT demo_env (demo_request ''tokenB'' (Some (JObj [(''title'', JStr [])])) []) ''d2'' demo_store
     = (Response InvalidInput 400, demo_store) \<and>
   PUT demo_env (demo_request ''tokenB'' (Some (JObj [(''title'', JStr [])])) []) ''d1'' demo_store
     = (Response InvalidInput 400, demo_store)"
proof -
  have v: "updateDocumentSchema (JObj [(''title'', JStr [])]) = None"
    by (simp add: updateDocumentSchema_def optional_def)
  have b: "json_body (demo_request ''tokenB'' (Some (JObj [(''title'', JStr [])])) [])
             = Some (JObj [(''title'', JStr [])])"
    by (simp add: demo_request_def)
  show ?thesis
    using update_validates_first [OF demo_auth_B b v, of "''d2''"]
      update_validates_first [OF demo_auth_B b v, of "''d1''"] demo_auth_B v demo_find_other
    by simp
qed

section \<open>The ownership rule\<close>

lemma json_body_demo [simp]: "json_body (demo_request t b q) = b"
  by (simp add: demo_request_def)

lemma demo_patch_valid:
  "updateDocumentSchema (JObj [(''status'', JStr ''IN_PROGRESS'')]) =
     Some \<lparr>p_title = None, p_content = None, p_status = Some ''IN_PROGRESS'', p_priority = None\<rparr>"
  by (simp add: updateDocumentSchema_def optional_def Status_def)

lemma demo_patch_invalid: "updateDocumentSchema (JObj [(''title'', JStr [])]) = None"
  by (simp add: updateDocumentSchema_def optional_def)

lemma DELETE_forbidden:
  "getAuthUser e request db = Some u \<Longrightarrow> document_findUnique db i = Some d \<Longrightarrow>
   authorId d \<noteq> user_id u \<Longrightarrow> role u \<noteq> ''ADMIN'' \<Longrightarrow>
   DELETE e request i db =
     (Response (Error ''Forbidden: You can only delete your own documents'') 403, db)"
  by (simp add: DELETE_def)

lemma PUT_forbidden:
  "getAuthUser e request db = Some u \<Longrightarrow> json_body request = Some body \<Longrightarrow>
   updateDocumentSchema body = Some data \<Longrightarrow> document_findUnique db i = Some d \<Longrightarrow>
   authorId d \<noteq> user_id u \<Longrightarrow> role u \<noteq> ''ADMIN'' \<Longrightarrow>
   PUT e request i db =
     (Response (Error ''Forbidden: You can only edit your own documents'') 403, db)"
  by (simp add: PUT_def)

lemma authorId_apply_data [simp]: "authorId (apply_data t data d) = authorId d"
  by (simp add: apply_data_def)

lemma PUT_allowed:
  "getAuthUser e request db = Some u \<Longrightarrow> json_body request = Some body \<Longrightarrow>
   updateDocumentSchema body = Some data \<Longrightarrow> document_findUnique db i = Some d \<Longrightarrow>
   authorId d = user_id u \<or> role u = ''ADMIN'' \<Longrightarrow>
   PUT e request i db =
     (Response (DocumentJson (apply_data (store_updatedAt e) data d)
        (user_findUnique db (authorId d))) 200,
      db\<lparr>documents :=
        map (\<lambda>x. if doc_id x = i then apply_data (store_updatedAt e) data x else x) (documents db)\<rparr>)"
  by (simp add: PUT_def document_update_def)

lemma PUT_not_forbidden:
  "getAuthUser e request db = Some u \<Longrightarrow> document_findUnique db i = Some d \<Longrightarrow>
   authorId d = user_id u \<or> role u = ''ADMIN'' \<Longrightarrow>
   status_code (fst (PUT e request i db)) \<noteq> 403"
  by (auto simp add: PUT_def document_update_def split: option.splits)

text \<open>
  Claim C1, as the code has it. Let \<open>u\<close> be the authenticated requester and \<open>d\<close> the stored
  document with id \<open>i\<close>. If \<open>u\<close> is neither the author of \<open>d\<close> nor an administrator, DELETE
  answers 403 and PUT answers 403 for every body that passes \<open>updateDocumentSchema\<close>; the
  store is unchanged in both. If \<open>u\<close> is the author or an administrator, DELETE answers
  200, PUT never answers 403, and PUT answers 200 for every body that passes the schema.
  Both handlers test the same condition. (A body that fails the schema is answered 400
  before the ownership test is reached.)
\<close>

theorem ownership_rule:
  assumes "getAuthUser e request db = Some u"
    and "document_findUnique db i = Some d"
  shows "(authorId d \<noteq> user_id u \<and> role u \<noteq> ''ADMIN'' \<longrightarrow>
            DELETE e request i db =
              (Response (Error ''Forbidden: You can only delete your own documents'') 403, db) \<and>
            (\<forall>body data. json_body request = Some body \<and> updateDocumentSchema body = Some data \<longrightarrow>
               PUT e request i db =
                 (Response (Error ''Forbidden: You can only edit your own documents'') 403, db))) \<and>
         (authorId d = user_id u \<or> role u = ''ADMIN'' \<longrightarrow>
            status_code (fst (DELETE e request i db)) = 200 \<and>
            status_code (fst (PUT e request i db)) \<noteq> 403 \<and>
            (\<forall>body data. json_body request = Some body \<and> updateDocumentSchema body = Some data \<longrightarrow>
               status_code (fst (PUT e request i db)) = 200))"
proof (intro conjI impI allI)
  assume no: "authorId d \<noteq> user_id u \<and> role u \<noteq> ''ADMIN''"
  then show "DELETE e request i db =
      (Response (Error ''Forbidden: You can only delete your own documents'') 403, db)"
    using assms by (intro DELETE_forbidden) blast+
  fix body data
  assume "json_body request = Some body \<and> updateDocumentSchema body = Some data"
  with no show "PUT e request i db =
      (Response (Error ''Forbidden: You can only edit your own documents'') 403, db)"
    using assms by (intro PUT_forbidden) blast+
next
  assume yes: "authorId d = user_id u \<or> role u = ''ADMIN''"
  show "status_code (fst (DELETE e request i db)) = 200"
    by (simp add: DELETE_allowed [OF assms yes])
  show "status_code (fst (PUT e request i db)) \<noteq> 403"
    by (rule PUT_not_forbidden [OF assms yes])
  fix body data
  assume "json_body request = Some body \<and> updateDocumentSchema body = Some data"
  then have b: "json_body request = Some body" and v: "updateDocumentSchema body = Some data"
    by blast+
  show "status_code (fst (PUT e request i db)) = 200"
    by (simp add: PUT_allowed [OF assms(1) b v assms(2) yes])
qed

text \<open>
  On document \<open>d1\<close> of user A, with the valid patch \<^verbatim>\<open>{"status": "IN_PROGRESS"}\<close>: user B
  is refused by both handlers, user A and the administrator are served by both.
\<close>

theorem ownership_rule_witness:
  "DELETE demo_env (demo_request ''tokenB'' (Some (JObj [(''status'', JStr ''IN_PROGRESS'')])) []) ''d1'' demo_store
     = (Response (Error ''Forbidden: You can only delete your own documents'') 403, demo_store) \<and>
   PUT demo_env (demo_request ''tokenB'' (Some (JObj [(''status'', JStr ''IN_PROGRESS'')])) []) ''d1'' demo_store
     = (Response (Error ''Forbidden: You can only edit your own documents'') 403, demo_store) \<and>
   status_code (fst (DELETE demo_env (demo_request ''tokenA'' (Some (JObj [(''status'', JStr ''IN_PROGRESS'')])) []) ''d1'' demo_store)) = 200 \<and>
   status_code (fst (PUT demo_env (demo_request ''tokenA'' (Some (JObj [(''status'', JStr ''IN_PROGRESS'')])) []) ''d1'' demo_store)) = 200 \<and>
   status_code (fst (DELETE demo_env (demo_request ''tokenC'' (Some (JObj [(''status'', JStr ''IN_PROGRESS'')])) []) ''d1'' demo_store)) = 200 \<and>
   status_code (fst (PUT demo_env (demo_request ''tokenC'' (Some (JObj [(''status'', JStr ''IN_PROGRESS'')])) []) ''d1'' demo_store)) = 200"
proof -
  let ?b = "Some (JObj [(''status'', JStr ''IN_PROGRESS'')])"
  have B: "authorId demo_doc \<noteq> user_id demo_userB \<and> role demo_userB \<noteq> ''ADMIN''"
    by (simp add: demo_doc_def demo_userB_def)
  have A: "authorId demo_doc = user_id demo_userA"
    by (simp add: demo_doc_def demo_userA_def)
  have C: "role demo_admin = ''ADMIN''"
    by (simp add: demo_admin_def)
  note rB = ownership_rule [OF demo_auth_B [of ?b "[]"] demo_find_d1]
  note rA = ownership_rule [OF demo_auth_A [of ?b "[]"] demo_find_d1]
  note rC = ownership_rule [OF demo_auth_C [of ?b "[]"] demo_find_d1]
  have b: "json_body (demo_request t ?b []) = ?b" for t
    by simp
  from rB B b demo_patch_valid rA A rC C show ?thesis
    by blast
qed

text \<open>
  The claim as written promises 403 for every update by a stranger. User B, neither the
  author of \<open>d1\<close> nor an administrator, sends the patch \<^verbatim>\<open>{"title": ""}\<close>: the answer is
  400.
\<close>

theorem ownership_rule_counterexample:
  "getAuthUser demo_env (demo_request ''tokenB'' (Some (JObj [(''title'', JStr [])])) []) demo_store
     = Some demo_userB \<and>
   document_findUnique demo_store ''d1'' = Some demo_doc \<and>
   user_id demo_userB \<noteq> authorId demo_doc \<and>
   role demo_userB \<noteq> ''ADMIN'' \<and>
   PUT demo_env (demo_request ''tokenB'' (Some (JObj [(''title'', JStr [])])) []) ''d1'' demo_store
     = (Response InvalidInput 400, demo_store)"
proof -
  have "PUT demo_env (demo_request ''tokenB'' (Some (JObj [(''title'', JStr [])])) []) ''d1'' demo_store
     = (Response InvalidInput 400, demo_store)"
    by (simp add: PUT_def demo_auth_B demo_patch_invalid)
  then show ?thesis
    by (simp add: demo_auth_B demo_find_d1 demo_userB_def demo_doc_def)
qed

section \<open>The access guard\<close>

text \<open>
  Claim C2, as the code has it. For a resolved identity \<open>u\<close> the guard denies with 403
  exactly when the role list is given and the role of \<open>u\<close> is not a member of it; in every
  other case it allows and returns \<open>u\<close>. An empty list is a given list with no member:
  it denies every identity. Only the omitted argument allows every identity.
\<close>

theorem requireAuth_decision:
  assumes "getAuthUser e request db = Some u"
  shows "(requireAuth roles e request db = AuthError ''Forbidden'' 403 \<longleftrightarrow>
            (\<exists>rs. roles = Some rs \<and> role u \<notin> set rs)) \<and>
         (requireAuth roles e request db \<noteq> AuthError ''Forbidden'' 403 \<longrightarrow>
            requireAuth roles e request db = AuthUser u) \<and>
         requireAuth (Some []) e request db = AuthError ''Forbidden'' 403 \<and>
         requireAuth None e request db = AuthUser u"
  using assms by (cases roles) (simp_all add: requireAuth_def)

text \<open>
  With the role list \<^verbatim>\<open>['ADMIN']\<close> user B is denied and the administrator is allowed;
  with no list user B is allowed.
\<close>

theorem requireAuth_decision_witness:
  "requireAuth (Some [''ADMIN'']) demo_env (demo_request ''tokenB'' None []) demo_store
     = AuthError ''Forbidden'' 403 \<and>
   requireAuth (Some [''ADMIN'']) demo_env (demo_request ''tokenC'' None []) demo_store
     = AuthUser demo_admin \<and>
   requireAuth None demo_env (demo_request ''tokenB'' None []) demo_store = AuthUser demo_userB"
proof -
  have B: "role demo_userB \<notin> set [''ADMIN'']"
    by (simp add: demo_userB_def)
  have C: "role demo_admin \<in> set [''ADMIN'']"
    by (simp add: demo_admin_def)
  note rB = requireAuth_decision [OF demo_auth_B [of None "[]"], of "Some [''ADMIN'']"]
  note rC = requireAuth_decision [OF demo_auth_C [of None "[]"], of "Some [''ADMIN'']"]
  from rB B rC C show ?thesis
    by auto
qed

text \<open>
  The claim as written allows every identity when the role list is empty. The
  administrator, resolved from a valid token, calls the guard built by
  \<^verbatim>\<open>requireAuth([])\<close> and is denied with 403.
\<close>

theorem requireAuth_empty_counterexample:
  "getAuthUser demo_env (demo_request ''tokenC'' None []) demo_store = Some demo_admin \<and>
   requireAuth (Some []) demo_env (demo_request ''tokenC'' None []) demo_store
     = AuthError ''Forbidden'' 403"
  by (simp add: requireAuth_def demo_auth_C)

section \<open>The signing secret\<close>

text \<open>
  Claim C3 asks that no hardcoded secret is used when the configured one is absent. The
  code does otherwise: whatever the rest of the environment, with \<^verbatim>\<open>JWT_SECRET\<close> unset the
  secret is the literal \<^verbatim>\<open>'fallback-secret-key'\<close>, and both \<open>signToken\<close> and \<open>verifyToken\<close>
  hand that literal to the library.
\<close>

theorem JWT_SECRET_fallback:
  "JWT_SECRET (e\<lparr>process_env_JWT_SECRET := None\<rparr>) = ''fallback-secret-key'' \<and>
   signToken (e\<lparr>process_env_JWT_SECRET := None\<rparr>) p = jwt_sign e p ''fallback-secret-key'' ''7d'' \<and>
   verifyToken (e\<lparr>process_env_JWT_SECRET := None\<rparr>) token = jwt_verify e token ''fallback-secret-key''"
  by (simp add: JWT_SECRET_def signToken_def verifyToken_def)

section \<open>Enumerations at the boundary\<close>

lemma z_enum_outside: "v \<notin> JStr ` set vs \<Longrightarrow> optional (z_enum vs) (Some v) = None"
  by (cases v) (auto simp add: optional_def)

lemma create_rejects_enum:
  "map_of kv ''status'' = Some v \<and> v \<notin> JStr ` set Status \<or>
   map_of kv ''priority'' = Some v \<and> v \<notin> JStr ` set Priority \<Longrightarrow>
   createDocumentSchema (JObj kv) = None"
  by (auto simp add: createDocumentSchema_def z_enum_outside bind_eq_None_conv)

lemma update_rejects_enum:
  "map_of kv ''status'' = Some v \<and> v \<notin> JStr ` set Status \<or>
   map_of kv ''priority'' = Some v \<and> v \<notin> JStr ` set Priority \<Longrightarrow>
   updateDocumentSchema (JObj kv) = None"
  by (auto simp add: updateDocumentSchema_def z_enum_outside bind_eq_None_conv)

lemma findMany_rows:
  "fst ` set (document_findMany db w) = {d \<in> set (documents db). matches w d}"
  by (auto simp add: document_findMany_def include_author_def image_iff)

lemma truthy_Some: "truthy v = Some s \<longleftrightarrow> v = Some s \<and> s \<noteq> []"
  by (auto simp add: truthy_def split: option.splits)

lemma matches_query:
  "matches \<lparr>where_status = truthy a, where_priority = truthy b\<rparr> d \<longleftrightarrow>
     (\<forall>s. a = Some s \<and> s \<noteq> [] \<longrightarrow> status d = s) \<and> (\<forall>p. b = Some p \<and> p \<noteq> [] \<longrightarrow> priority d = p)"
  by (cases a; cases b) (auto simp add: matches_def truthy_def)

lemma POST_invalid:
  "getAuthUser e request db = Some u \<Longrightarrow> json_body request = Some body \<Longrightarrow>
   createDocumentSchema body = None \<Longrightarrow> POST e request db = (Response InvalidInput 400, db)"
  by (simp add: POST_def)

lemma PUT_invalid:
  "getAuthUser e request db = Some u \<Longrightarrow> json_body request = Some body \<Longrightarrow>
   updateDocumentSchema body = None \<Longrightarrow> PUT e request i db = (Response InvalidInput 400, db)"
  by (simp add: PUT_def)

text \<open>
  Claim C4, as the code has it. For an authenticated request whose JSON body is an object
  carrying a \<open>status\<close> outside \<open>Status\<close> or a \<open>priority\<close> outside \<open>Priority\<close> (a string
  that is not a member, or a value that is not a string), POST and PUT answer 400 and
  return the store unchanged. The list handler validates nothing: it always answers 200,
  and the rows it returns are the stored rows whose \<open>status\<close> and \<open>priority\<close> equal the
  non-empty query values, whether or not those values belong to the enumerations.
\<close>

theorem enum_boundary:
  assumes "getAuthUser e request db = Some u"
  shows "(\<forall>kv v. json_body request = Some (JObj kv) \<and>
            (map_of kv ''status'' = Some v \<and> v \<notin> JStr ` set Status \<or>
             map_of kv ''priority'' = Some v \<and> v \<notin> JStr ` set Priority) \<longrightarrow>
            POST e request db = (Response InvalidInput 400, db) \<and>
            PUT e request i db = (Response InvalidInput 400, db)) \<and>
         (\<exists>ds. GET_documents e request db = Response (DocumentsJson ds) 200 \<and>
            fst ` set ds =
              {d \<in> set (documents db).
                 (\<forall>s. map_of (searchParams request) ''status'' = Some s \<and> s \<noteq> [] \<longrightarrow> status d = s) \<and>
                 (\<forall>p. map_of (searchParams request) ''priority'' = Some p \<and> p \<noteq> [] \<longrightarrow> priority d = p)})"
proof (intro conjI allI impI)
  fix kv v
  assume h: "json_body request = Some (JObj kv) \<and>
            (map_of kv ''status'' = Some v \<and> v \<notin> JStr ` set Status \<or>
             map_of kv ''priority'' = Some v \<and> v \<notin> JStr ` set Priority)"
  then have b: "json_body request = Some (JObj kv)"
    by blast
  from h have c: "createDocumentSchema (JObj kv) = None"
    by (intro create_rejects_enum) blast
  from h have p: "updateDocumentSchema (JObj kv) = None"
    by (intro update_rejects_enum) blast
  show "POST e request db = (Response InvalidInput 400, db)"
    by (rule POST_invalid [OF assms b c])
  show "PUT e request i db = (Response InvalidInput 400, db)"
    by (rule PUT_invalid [OF assms b p])
next
  let ?w = "\<lparr>where_status = truthy (map_of (searchParams request) ''status''),
             where_priority = truthy (map_of (searchParams request) ''priority'')\<rparr>"
  have "GET_documents e request db = Response (DocumentsJson (document_findMany db ?w)) 200"
    using assms by (simp add: GET_documents_def)
  moreover have "fst ` set (document_findMany db ?w) =
              {d \<in> set (documents db).
                 (\<forall>s. map_of (searchParams request) ''status'' = Some s \<and> s \<noteq> [] \<longrightarrow> status d = s) \<and>
                 (\<forall>p. map_of (searchParams request) ''priority'' = Some p \<and> p \<noteq> [] \<longrightarrow> priority d = p)}"
    unfolding findMany_rows matches_query ..
  ultimately show "\<exists>ds. GET_documents e request db = Response (DocumentsJson ds) 200 \<and>
            fst ` set ds =
              {d \<in> set (documents db).
                 (\<forall>s. map_of (searchParams request) ''status'' = Some s \<and> s \<noteq> [] \<longrightarrow> status d = s) \<and>
                 (\<forall>p. map_of (searchParams request) ''priority'' = Some p \<and> p \<noteq> [] \<longrightarrow> priority d = p)}"
    by blast
qed

lemma searchParams_demo [simp]: "searchParams (demo_request t b q) = q"
  by (simp add: demo_request_def)

lemma demo_get_bogus:
  "GET_documents demo_env (demo_request ''tokenA'' None [(''status'', ''BOGUS'')]) demo_store
     = Response (DocumentsJson []) 200"
  unfolding GET_documents_def demo_auth_A
  by (simp add: truthy_def document_findMany_def demo_store_def demo_doc_def matches_def)

text \<open>
  User A sends \<^verbatim>\<open>{"title": "t", "content": "c", "status": "BOGUS"}\<close>: POST and PUT
  answer 400 and the store is untouched; the list handler answers 200.
\<close>

theorem enum_boundary_witness:
  "POST demo_env (demo_request ''tokenA''
      (Some (JObj [(''title'', JStr ''t''), (''content'', JStr ''c''), (''status'', JStr ''BOGUS'')])) []) demo_store
     = (Response InvalidInput 400, demo_store) \<and>
   PUT demo_env (demo_request ''tokenA''
      (Some (JObj [(''title'', JStr ''t''), (''content'', JStr ''c''), (''status'', JStr ''BOGUS'')])) []) ''d1'' demo_store
     = (Response InvalidInput 400, demo_store) \<and>
   status_code (GET_documents demo_env (demo_request ''tokenA''
      (Some (JObj [(''title'', JStr ''t''), (''content'', JStr ''c''), (''status'', JStr ''BOGUS'')])) []) demo_store) = 200"
proof -
  let ?kv = "[(''title'', JStr ''t''), (''content'', JStr ''c''), (''status'', JStr ''BOGUS'')]"
  have out: "map_of ?kv ''status'' = Some (JStr ''BOGUS'') \<and> JStr ''BOGUS'' \<notin> JStr ` set Status"
    by (simp add: Status_def image_iff)
  have b: "json_body (demo_request ''tokenA'' (Some (JObj ?kv)) []) = Some (JObj ?kv)"
    by simp
  note r = enum_boundary [OF demo_auth_A [of "Some (JObj ?kv)" "[]"], of "''d1''"]
  note r1 = r [THEN conjunct1, rule_format, of ?kv "JStr ''BOGUS''"]
  have 1: "POST demo_env (demo_request ''tokenA'' (Some (JObj ?kv)) []) demo_store
     = (Response InvalidInput 400, demo_store) \<and>
   PUT demo_env (demo_request ''tokenA'' (Some (JObj ?kv)) []) ''d1'' demo_store
     = (Response InvalidInput 400, demo_store)"
    using out b by (intro r1) simp
  from r [THEN conjunct2] obtain ds where
    "GET_documents demo_env (demo_request ''tokenA'' (Some (JObj ?kv)) []) demo_store
      = Response (DocumentsJson ds) 200"
    by (elim exE conjE)
  then have 2: "status_code (GET_documents demo_env (demo_request ''tokenA'' (Some (JObj ?kv)) []) demo_store) = 200"
    by simp
  from 1 2 show ?thesis
    by simp
qed

text \<open>
  The claim as written has an out-of-range list filter rejected with a validation error.
  User A lists with \<^verbatim>\<open>?status=BOGUS\<close>: the value is handed to the store as a filter and
  the answer is 200 with an empty list.
\<close>

theorem enum_boundary_counterexample:
  "getAuthUser demo_env (demo_request ''tokenA'' None [(''status'', ''BOGUS'')]) demo_store
     = Some demo_userA \<and>
   ''BOGUS'' \<notin> set Status \<and>
   GET_documents demo_env (demo_request ''tokenA'' None [(''status'', ''BOGUS'')]) demo_store
     = Response (DocumentsJson []) 200"
  by (simp add: demo_get_bogus demo_auth_A Status_def)

section \<open>Creating a document\<close>

lemma z_string_Some:
  "z_string mn mx v = Some s \<longleftrightarrow>
     v = Some (JStr s) \<and> mn \<le> length s \<and> (case mx of None \<Rightarrow> True | Some m \<Rightarrow> length s \<le> m)"
  by (cases "(mn, mx, v)" rule: z_string.cases) auto

lemma optional_z_enum_Some:
  "optional (z_enum vs) v = Some r \<longleftrightarrow>
     v = None \<and> r = None \<or> (\<exists>s. v = Some (JStr s) \<and> s \<in> set vs \<and> r = Some s)"
  by (cases "(vs, v)" rule: z_enum.cases) (auto simp add: optional_def)


lemma createDocumentSchema_Some:
  "createDocumentSchema body = Some data \<longleftrightarrow>
     (\<exists>kv. body = JObj kv \<and>
        map_of kv ''title'' = Some (JStr (c_title data)) \<and>
        1 \<le> length (c_title data) \<and> length (c_title data) \<le> 200 \<and>
        map_of kv ''content'' = Some (JStr (c_content data)) \<and> 1 \<le> length (c_content data) \<and>
        (map_of kv ''status'' = None \<and> c_status data = None \<or>
         (\<exists>s. map_of kv ''status'' = Some (JStr s) \<and> s \<in> set Status \<and> c_status data = Some s)) \<and>
        (map_of kv ''priority'' = None \<and> c_priority data = None \<or>
         (\<exists>p. map_of kv ''priority'' = Some (JStr p) \<and> p \<in> set Priority \<and> c_priority data = Some p)))"
  (is "?l \<longleftrightarrow> ?r")
proof
  assume ?l
  then show ?r
    by (cases body)
      (auto simp add: createDocumentSchema_def bind_eq_Some_conv z_string_Some optional_z_enum_Some)
next
  assume ?r
  then obtain kv where "body = JObj kv"
    and "z_string 1 (Some 200) (map_of kv ''title'') = Some (c_title data)"
    and "z_string 1 None (map_of kv ''content'') = Some (c_content data)"
    and "optional (z_enum Status) (map_of kv ''status'') = Some (c_status data)"
    and "optional (z_enum Priority) (map_of kv ''priority'') = Some (c_priority data)"
    unfolding z_string_Some optional_z_enum_Some by auto
  then show ?l
    by (simp add: createDocumentSchema_def)
qed

lemma user_findUnique_id: "user_findUnique db i = Some u \<Longrightarrow> user_id u = i"
  unfolding user_findUnique_def by (auto simp add: select_user_def find_Some_iff)

lemma getAuthUser_row:
  assumes "getAuthUser e request db = Some u"
  shows "user_findUnique db (user_id u) = Some u"
proof -
  have "user_findUnique db i = Some u \<Longrightarrow> user_findUnique db (user_id u) = Some u" for i
    using user_findUnique_id [of db i u] by simp
  with assms show ?thesis
    by (auto simp add: getAuthUser_def split: option.splits if_splits)
qed

lemma POST_valid:
  assumes "getAuthUser e request db = Some u"
    and "json_body request = Some body"
    and "createDocumentSchema body = Some data"
    and "document_findUnique db (uuid e) = None"
  shows "POST e request db =
    (Response (DocumentJson
       \<lparr>doc_id = uuid e, title = c_title data, content = c_content data,
        status = (case c_status data of None \<Rightarrow> ''TODO'' | Some s \<Rightarrow> s),
        priority = (case c_priority data of None \<Rightarrow> ''MEDIUM'' | Some p \<Rightarrow> p),
        createdAt = now e, updatedAt = now e, authorId = user_id u\<rparr> (Some u)) 201,
     db\<lparr>documents := documents db @
       [\<lparr>doc_id = uuid e, title = c_title data, content = c_content data,
        status = (case c_status data of None \<Rightarrow> ''TODO'' | Some s \<Rightarrow> s),
        priority = (case c_priority data of None \<Rightarrow> ''MEDIUM'' | Some p \<Rightarrow> p),
        createdAt = now e, updatedAt = now e, authorId = user_id u\<rparr>]\<rparr>)"
  using assms getAuthUser_row [OF assms(1)]
  by (simp add: POST_def document_create_def Let_def)

text \<open>
  Claim C7, as the code has it. Let the caller be authenticated, the body be JSON, and the
  identifier the store draws be unused. POST answers 201 exactly when the body is an object
  whose \<open>title\<close> is a string of 1 to 200 code units, whose \<open>content\<close> is a non-empty
  string, and whose \<open>status\<close> and \<open>priority\<close> are each absent or a member of the
  enumeration; in every other case it answers 400 and returns the store unchanged. On 201
  one row is appended: it carries the given title and content, the caller as author, the
  given status and priority where present, and \<open>TODO\<close> where the status is absent and
  \<open>MEDIUM\<close> where the priority is absent.
\<close>

theorem create_validation:
  assumes "getAuthUser e request db = Some u"
    and "json_body request = Some body"
    and "document_findUnique db (uuid e) = None"
  shows "(status_code (fst (POST e request db)) = 201 \<longleftrightarrow>
            (\<exists>kv t c. body = JObj kv \<and>
               map_of kv ''title'' = Some (JStr t) \<and> 1 \<le> length t \<and> length t \<le> 200 \<and>
               map_of kv ''content'' = Some (JStr c) \<and> 1 \<le> length c \<and>
               (map_of kv ''status'' = None \<or> (\<exists>s. map_of kv ''status'' = Some (JStr s) \<and> s \<in> set Status)) \<and>
               (map_of kv ''priority'' = None \<or> (\<exists>p. map_of kv ''priority'' = Some (JStr p) \<and> p \<in> set Priority)))) \<and>
         (status_code (fst (POST e request db)) \<noteq> 201 \<longrightarrow>
            POST e request db = (Response InvalidInput 400, db)) \<and>
         (\<forall>kv. body = JObj kv \<and> status_code (fst (POST e request db)) = 201 \<longrightarrow>
            (\<exists>d. POST e request db =
                   (Response (DocumentJson d (Some u)) 201, db\<lparr>documents := documents db @ [d]\<rparr>) \<and>
                 doc_id d = uuid e \<and> authorId d = user_id u \<and>
                 createdAt d = now e \<and> updatedAt d = now e \<and>
                 map_of kv ''title'' = Some (JStr (title d)) \<and>
                 map_of kv ''content'' = Some (JStr (content d)) \<and>
                 (map_of kv ''status'' = None \<longrightarrow> status d = ''TODO'') \<and>
                 (map_of kv ''priority'' = None \<longrightarrow> priority d = ''MEDIUM'') \<and>
                 (\<forall>s. map_of kv ''status'' = Some (JStr s) \<longrightarrow> status d = s) \<and>
                 (\<forall>p. map_of kv ''priority'' = Some (JStr p) \<longrightarrow> priority d = p)))"
proof (cases "createDocumentSchema body")
  case None
  then have r: "POST e request db = (Response InvalidInput 400, db)"
    using assms by (simp add: POST_def)
  have "\<not> (\<exists>kv t c. body = JObj kv \<and>
               map_of kv ''title'' = Some (JStr t) \<and> 1 \<le> length t \<and> length t \<le> 200 \<and>
               map_of kv ''content'' = Some (JStr c) \<and> 1 \<le> length c \<and>
               (map_of kv ''status'' = None \<or> (\<exists>s. map_of kv ''status'' = Some (JStr s) \<and> s \<in> set Status)) \<and>
               (map_of kv ''priority'' = None \<or> (\<exists>p. map_of kv ''priority'' = Some (JStr p) \<and> p \<in> set Priority)))"
  proof
    assume "\<exists>kv t c. body = JObj kv \<and>
               map_of kv ''title'' = Some (JStr t) \<and> 1 \<le> length t \<and> length t \<le> 200 \<and>
               map_of kv ''content'' = Some (JStr c) \<and> 1 \<le> length c \<and>
               (map_of kv ''status'' = None \<or> (\<exists>s. map_of kv ''status'' = Some (JStr s) \<and> s \<in> set Status)) \<and>
               (map_of kv ''priority'' = None \<or> (\<exists>p. map_of kv ''priority'' = Some (JStr p) \<and> p \<in> set Priority))"
    then obtain kv t c where k: "body = JObj kv"
      and "z_string 1 (Some 200) (map_of kv ''title'') = Some t"
      and "z_string 1 None (map_of kv ''content'') = Some c"
      and "\<exists>r. optional (z_enum Status) (map_of kv ''status'') = Some r"
      and "\<exists>r. optional (z_enum Priority) (map_of kv ''priority'') = Some r"
      unfolding z_string_Some optional_z_enum_Some by auto
    then have "createDocumentSchema body \<noteq> None"
      by (auto simp add: createDocumentSchema_def)
    with None show False
      by simp
  qed
  with r show ?thesis
    by simp
next
  case (Some data)
  note r = POST_valid [OF assms(1,2) Some assms(3)]
  from Some obtain kv where k: "body = JObj kv"
    and t: "map_of kv ''title'' = Some (JStr (c_title data))"
       "1 \<le> length (c_title data)" "length (c_title data) \<le> 200"
    and c: "map_of kv ''content'' = Some (JStr (c_content data))" "1 \<le> length (c_content data)"
    and s: "map_of kv ''status'' = None \<and> c_status data = None \<or>
         (\<exists>s. map_of kv ''status'' = Some (JStr s) \<and> s \<in> set Status \<and> c_status data = Some s)"
    and p: "map_of kv ''priority'' = None \<and> c_priority data = None \<or>
         (\<exists>p. map_of kv ''priority'' = Some (JStr p) \<and> p \<in> set Priority \<and> c_priority data = Some p)"
    unfolding createDocumentSchema_Some by blast
  have code: "status_code (fst (POST e request db)) = 201"
    by (simp add: r)
  have valid: "\<exists>kv t c. body = JObj kv \<and>
               map_of kv ''title'' = Some (JStr t) \<and> 1 \<le> length t \<and> length t \<le> 200 \<and>
               map_of kv ''content'' = Some (JStr c) \<and> 1 \<le> length c \<and>
               (map_of kv ''status'' = None \<or> (\<exists>s. map_of kv ''status'' = Some (JStr s) \<and> s \<in> set Status)) \<and>
               (map_of kv ''priority'' = None \<or> (\<exists>p. map_of kv ''priority'' = Some (JStr p) \<and> p \<in> set Priority))"
    using k t c s p by blast
  have made: "\<exists>d. POST e request db =
                   (Response (DocumentJson d (Some u)) 201, db\<lparr>documents := documents db @ [d]\<rparr>) \<and>
                 doc_id d = uuid e \<and> authorId d = user_id u \<and>
                 createdAt d = now e \<and> updatedAt d = now e \<and>
                 map_of kv' ''title'' = Some (JStr (title d)) \<and>
                 map_of kv' ''content'' = Some (JStr (content d)) \<and>
                 (map_of kv' ''status'' = None \<longrightarrow> status d = ''TODO'') \<and>
                 (map_of kv' ''priority'' = None \<longrightarrow> priority d = ''MEDIUM'') \<and>
                 (\<forall>s. map_of kv' ''status'' = Some (JStr s) \<longrightarrow> status d = s) \<and>
                 (\<forall>p. map_of kv' ''priority'' = Some (JStr p) \<longrightarrow> priority d = p)"
    if "body = JObj kv'" for kv'
  proof -
    let ?d = "\<lparr>doc_id = uuid e, title = c_title data, content = c_content data,
        status = (case c_status data of None \<Rightarrow> ''TODO'' | Some s \<Rightarrow> s),
        priority = (case c_priority data of None \<Rightarrow> ''MEDIUM'' | Some p \<Rightarrow> p),
        createdAt = now e, updatedAt = now e, authorId = user_id u\<rparr>"
    from that k have same: "kv' = kv"
      by simp
    show ?thesis
    proof (intro exI conjI)
      show "POST e request db =
        (Response (DocumentJson ?d (Some u)) 201, db\<lparr>documents := documents db @ [?d]\<rparr>)"
        by (rule r)
    qed (use same t c s p in auto)
  qed
  from code valid made show ?thesis
    by simp
qed

lemma demo_fresh: "document_findUnique demo_store (uuid demo_env) = None"
  by (simp add: demo_env_def demo_find_other)

text \<open>
  User A posts \<^verbatim>\<open>{"title": "t", "content": "c"}\<close>: 201, and the row has status \<open>TODO\<close> and
  priority \<open>MEDIUM\<close>. With an empty title the answer is 400 and the store is untouched.
\<close>

theorem create_validation_witness:
  "status_code (fst (POST demo_env
      (demo_request ''tokenA'' (Some (JObj [(''title'', JStr ''t''), (''content'', JStr ''c'')])) [])
      demo_store)) = 201 \<and>
   (\<exists>d. response_document (fst (POST demo_env
      (demo_request ''tokenA'' (Some (JObj [(''title'', JStr ''t''), (''content'', JStr ''c'')])) [])
      demo_store)) = Some d \<and> title d = ''t'' \<and> content d = ''c'' \<and>
      status d = ''TODO'' \<and> priority d = ''MEDIUM'') \<and>
   POST demo_env (demo_request ''tokenA'' (Some (JObj [(''title'', JStr []), (''content'', JStr ''c'')])) [])
      demo_store = (Response InvalidInput 400, demo_store)"
proof -
  let ?kv = "[(''title'', JStr ''t''), (''content'', JStr ''c'')]"
  let ?bad = "[(''title'', JStr []), (''content'', JStr ''c'')]"
  note good = create_validation [OF demo_auth_A [of "Some (JObj ?kv)" "[]"] json_body_demo demo_fresh]
  note bad = create_validation [OF demo_auth_A [of "Some (JObj ?bad)" "[]"] json_body_demo demo_fresh]
  have ok: "\<exists>kv t c. JObj ?kv = JObj kv \<and>
               map_of kv ''title'' = Some (JStr t) \<and> 1 \<le> length t \<and> length t \<le> 200 \<and>
               map_of kv ''content'' = Some (JStr c) \<and> 1 \<le> length c \<and>
               (map_of kv ''status'' = None \<or> (\<exists>s. map_of kv ''status'' = Some (JStr s) \<and> s \<in> set Status)) \<and>
               (map_of kv ''priority'' = None \<or> (\<exists>p. map_of kv ''priority'' = Some (JStr p) \<and> p \<in> set Priority))"
    by simp
  have 1: "status_code (fst (POST demo_env (demo_request ''tokenA'' (Some (JObj ?kv)) []) demo_store)) = 201"
    using good [THEN conjunct1] ok by (rule iffD2)
  have "\<exists>d. POST demo_env (demo_request ''tokenA'' (Some (JObj ?kv)) []) demo_store =
        (Response (DocumentJson d (Some demo_userA)) 201,
         demo_store\<lparr>documents := documents demo_store @ [d]\<rparr>) \<and>
      doc_id d = uuid demo_env \<and> authorId d = user_id demo_userA \<and>
      createdAt d = now demo_env \<and> updatedAt d = now demo_env \<and>
      map_of ?kv ''title'' = Some (JStr (title d)) \<and>
      map_of ?kv ''content'' = Some (JStr (content d)) \<and>
      (map_of ?kv ''status'' = None \<longrightarrow> status d = ''TODO'') \<and>
      (map_of ?kv ''priority'' = None \<longrightarrow> priority d = ''MEDIUM'') \<and>
      (\<forall>s. map_of ?kv ''status'' = Some (JStr s) \<longrightarrow> status d = s) \<and>
      (\<forall>p. map_of ?kv ''priority'' = Some (JStr p) \<longrightarrow> priority d = p)"
    by (rule good [THEN conjunct2, THEN conjunct2, rule_format, of ?kv]) (simp add: 1)
  then have 2: "\<exists>d. response_document (fst (POST demo_env
      (demo_request ''tokenA'' (Some (JObj ?kv)) []) demo_store)) = Some d \<and>
      title d = ''t'' \<and> content d = ''c'' \<and> status d = ''TODO'' \<and> priority d = ''MEDIUM''"
    by (elim exE conjE) simp
  have no: "\<not> (\<exists>kv t c. JObj ?bad = JObj kv \<and>
               map_of kv ''title'' = Some (JStr t) \<and> 1 \<le> length t \<and> length t \<le> 200 \<and>
               map_of kv ''content'' = Some (JStr c) \<and> 1 \<le> length c \<and>
               (map_of kv ''status'' = None \<or> (\<exists>s. map_of kv ''status'' = Some (JStr s) \<and> s \<in> set Status)) \<and>
               (map_of kv ''priority'' = None \<or> (\<exists>p. map_of kv ''priority'' = Some (JStr p) \<and> p \<in> set Priority)))"
    by auto
  with bad [THEN conjunct1] have "status_code (fst (POST demo_env (demo_request ''tokenA'' (Some (JObj ?bad)) []) demo_store)) \<noteq> 201"
    by simp
  with bad [THEN conjunct2, THEN conjunct1]
  have 3: "POST demo_env (demo_request ''tokenA'' (Some (JObj ?bad)) []) demo_store
      = (Response InvalidInput 400, demo_store)"
    by (rule mp)
  from 1 2 3 show ?thesis
    by (intro conjI)
qed

text \<open>
  The claim as written accepts every input whose title and content are in range. User A
  posts a title and a content of one code unit each together with the status \<open>BOGUS\<close>:
  the answer is 400.
\<close>

theorem create_validation_counterexample:
  "getAuthUser demo_env (demo_request ''tokenA''
      (Some (JObj [(''title'', JStr ''t''), (''content'', JStr ''c''), (''status'', JStr ''BOGUS'')])) [])
      demo_store = Some demo_userA \<and>
   length ''t'' = 1 \<and> length ''c'' = 1 \<and>
   POST demo_env (demo_request ''tokenA''
      (Some (JObj [(''title'', JStr ''t''), (''content'', JStr ''c''), (''status'', JStr ''BOGUS'')])) [])
      demo_store = (Response InvalidInput 400, demo_store)"
proof -
  have "createDocumentSchema (JObj [(''title'', JStr ''t''), (''content'', JStr ''c''), (''status'', JStr ''BOGUS'')]) = None"
    by (simp add: createDocumentSchema_def optional_def Status_def)
  then show ?thesis
    by (simp add: POST_def demo_auth_A)
qed

section \<open>Updating a document\<close>















end
